theory Spec2Isabelle
  imports Complex_Main
begin

section \<open>Python strings\<close>

text \<open>
  A Python \<open>str\<close> is a sequence of code points and \<open>len\<close> counts code points. The
  model takes the code points U+0000 to U+00FF: a \<open>char\<close> is the code point with that
  number, so \<open>length\<close> is Python's \<open>len\<close> on these strings. On this range
  \<open>str.isspace\<close>, \<open>str.strip()\<close> and \<open>str.lower()\<close> are as below (Unicode
  character database: white space is U+0009..U+000D, U+001C..U+0020, U+0085, U+00A0;
  the upper-case letters are A..Z and U+00C0..U+00DE without the multiplication sign
  U+00D7, each 32 below its lower-case letter).
\<close>

definition isspace :: "char \<Rightarrow> bool" where
  "isspace c = (let n = (of_char c :: nat)
                in (9 \<le> n \<and> n \<le> 13) \<or> (28 \<le> n \<and> n \<le> 32) \<or> n = 133 \<or> n = 160)"

definition strip :: "string \<Rightarrow> string" where
  "strip s = rev (dropWhile isspace (rev (dropWhile isspace s)))"

definition lower_char :: "char \<Rightarrow> char" where
  "lower_char c = (let n = (of_char c :: nat)
                   in if (65 \<le> n \<and> n \<le> 90) \<or> (192 \<le> n \<and> n \<le> 222 \<and> n \<noteq> 215)
                      then char_of (n + 32) else c)"

definition lower :: "string \<Rightarrow> string" where
  "lower s = map lower_char s"

text \<open>\<open>sub in s\<close> on strings: \<open>sub\<close> occurs in \<open>s\<close> as a contiguous substring.\<close>

fun str_in :: "string \<Rightarrow> string \<Rightarrow> bool" where
  "str_in sub [] = (sub = [])"
| "str_in sub (c # cs) = (take (length sub) (c # cs) = sub \<or> str_in sub cs)"

section \<open>Python values and dictionaries\<close>

text \<open>
  The values that \<open>response.json()\<close> can return and that the result dictionaries
  hold. A dictionary is an association list in insertion order; \<open>PIsoTime t\<close> stands for
  the string \<open>datetime.now().isoformat()\<close> taken when the clock reads \<open>t\<close>.
\<close>

datatype pyval =
    PNone
  | PBool bool
  | PInt int
  | PFloat real
  | PStr string
  | PIsoTime real
  | PList "pyval list"
  | PDict "(string \<times> pyval) list"

type_synonym dict = "(string \<times> pyval) list"

text \<open>\<open>d[k] = v\<close>: an existing key keeps its place, a new key goes to the end.\<close>

fun dict_set :: "string \<Rightarrow> pyval \<Rightarrow> dict \<Rightarrow> dict" where
  "dict_set k v [] = [(k, v)]"
| "dict_set k v ((k', v') # d) = (if k' = k then (k, v) # d else (k', v') # dict_set k v d)"

section \<open>Module constants\<close>

definition SUPPORTED_LANGUAGES :: "(string \<times> string) list" where
  "SUPPORTED_LANGUAGES = [
    (''auto'', ''Auto-detect''),
    (''ar'', ''Arabic''),
    (''bn'', ''Bengali''),
    (''cs'', ''Czech''),
    (''cy'', ''Welsh''),
    (''da'', ''Danish''),
    (''de'', ''German''),
    (''el'', ''Greek''),
    (''en'', ''English''),
    (''es'', ''Spanish''),
    (''fa'', ''Farsi''),
    (''fi'', ''Finnish''),
    (''fr'', ''French''),
    (''gu'', ''Gujarati''),
    (''he'', ''Hebrew''),
    (''hi'', ''Hindi''),
    (''hu'', ''Hungarian''),
    (''id'', ''Indonesian''),
    (''it'', ''Italian''),
    (''ja'', ''Japanese''),
    (''kn'', ''Kannada''),
    (''ko'', ''Korean''),
    (''lt'', ''Lithuanian''),
    (''lv'', ''Latvian''),
    (''mk'', ''Macedonian''),
    (''ml'', ''Malayalam''),
    (''mr'', ''Marathi''),
    (''ne'', ''Nepali''),
    (''nl'', ''Dutch''),
    (''pa'', ''Punjabi''),
    (''pl'', ''Polish''),
    (''pt'', ''Portuguese''),
    (''ro'', ''Romanian''),
    (''ru'', ''Russian''),
    (''sk'', ''Slovak''),
    (''sl'', ''Slovenian''),
    (''sv'', ''Swedish''),
    (''ta'', ''Tamil''),
    (''te'', ''Telugu''),
    (''tr'', ''Turkish''),
    (''uk'', ''Ukrainian''),
    (''vi'', ''Vietnamese''),
    (''zh'', ''Chinese'')]"

datatype RetryStrategy = EXPONENTIAL | LINEAR | IMMEDIATE

section \<open>Exceptions\<close>

text \<open>
  The message of each \<open>raise\<close> is kept as a constructor naming the place that raises.
  \<open>TimeoutError\<close>, \<open>ValueError\<close>, \<open>AttributeError\<close> and \<open>TypeError\<close> are Python's
  built-in classes; \<open>ConnectionError\<close> and \<open>RequestException\<close> are the classes of
  \<open>requests.exceptions\<close> (the module's import shadows the built-in \<open>ConnectionError\<close>),
  and \<open>ConnectionError\<close> is a subclass of \<open>RequestException\<close>.
\<close>

datatype validation_msg =
    TextEmpty                \<comment> \<open>"Text cannot be empty. Please provide text to translate."\<close>
  | TextTooLong              \<comment> \<open>"Text too long. Maximum 5000 characters allowed."\<close>
  | LanguageEmpty            \<comment> \<open>"Target language code cannot be empty."\<close>
  | LanguageInvalid string   \<comment> \<open>"Invalid language code: '...'. Supported codes: ..."\<close>

datatype connection_msg =
    FailedToConnect          \<comment> \<open>"Failed to connect to the translation API. ..."\<close>
  | QuotaExceeded string     \<comment> \<open>"API quota exceeded: ... . Please try again later."\<close>
  | ApiError string          \<comment> \<open>"API Error: ..."\<close>

datatype value_msg =
    InputRejected "validation_msg option"   \<comment> \<open>\<open>ValueError(error_msg)\<close> of \<open>translate\<close>\<close>
  | InvalidJSON              \<comment> \<open>"Malformed API response: Invalid JSON returned by the server."\<close>
  | ExpectedObject           \<comment> \<open>"Malformed API response: Expected JSON object."\<close>
  | InvalidLanguage string   \<comment> \<open>"Invalid language code. ..."\<close>
  | MissingTranslatedText    \<comment> \<open>"Malformed API response: Missing 'translatedText' field."\<close>
  | NegativeSleep            \<comment> \<open>raised by \<open>time.sleep\<close> for a negative argument\<close>

datatype exn =
    TimeoutError
  | ConnectionError connection_msg
  | RequestException
  | ValueError value_msg
  | AttributeError           \<comment> \<open>\<open>error_msg.lower()\<close> on a value that is not a \<open>str\<close>\<close>
  | TypeError                \<comment> \<open>\<open>raise None\<close>\<close>

section \<open>Input validation\<close>

text \<open>\<open>validate_input\<close> reads nothing of \<open>self\<close>; the model leaves the client out.\<close>

definition validate_input :: "string \<Rightarrow> string \<Rightarrow> bool \<times> validation_msg option" where
  "validate_input text target_language =
     (if text = [] \<or> strip text = [] then (False, Some TextEmpty)
      else if length (strip text) > 5000 then (False, Some TextTooLong)
      else if target_language = [] \<or> strip target_language = [] then (False, Some LanguageEmpty)
      else (let lang_code = strip (lower target_language)
            in if lang_code \<notin> set (map fst SUPPORTED_LANGUAGES)
               then (False, Some (LanguageInvalid target_language))
               else (True, None)))"

section \<open>The client and its environment\<close>

text \<open>
  The instance attributes of \<open>TranslationAPIClient\<close> and the class attributes that its
  methods read through \<open>self\<close>. \<open>init\<close> is \<open>__init__\<close> with the class's values.
\<close>

record client =
  max_retries :: int
  use_mock :: bool
  last_request_time :: real
  RETRY_STRATEGY :: RetryStrategy
  RETRY_DELAY :: real
  REQUEST_TIMEOUT :: real

definition init :: "int \<Rightarrow> bool \<Rightarrow> client" where
  "init n mock = \<lparr> max_retries = n, use_mock = mock, last_request_time = 0,
                   RETRY_STRATEGY = EXPONENTIAL, RETRY_DELAY = 1, REQUEST_TIMEOUT = 1/2 \<rparr>"

text \<open>
  What \<open>session.post\<close>, \<open>raise_for_status\<close> and \<open>response.json()\<close> do on one call is
  the environment's choice. An exception of \<open>requests\<close> is given by its class:
  \<open>ConnectTimeout\<close> is a subclass of both \<open>ConnectionError\<close> and \<open>Timeout\<close>,
  \<open>ReadTimeout\<close> of \<open>Timeout\<close>, \<open>HTTPError\<close> (raised by \<open>raise_for_status\<close>) of
  \<open>RequestException\<close> only.
\<close>

datatype requests_exc =
    ReadTimeout | ConnectTimeout | PlainConnectionError | HTTPError | OtherRequestException

fun isinstance_Timeout :: "requests_exc \<Rightarrow> bool" where
  "isinstance_Timeout ReadTimeout = True"
| "isinstance_Timeout ConnectTimeout = True"
| "isinstance_Timeout _ = False"

fun isinstance_ConnectionError :: "requests_exc \<Rightarrow> bool" where
  "isinstance_ConnectionError ConnectTimeout = True"
| "isinstance_ConnectionError PlainConnectionError = True"
| "isinstance_ConnectionError _ = False"

datatype post_outcome =
    Raises requests_exc   \<comment> \<open>\<open>post\<close> or \<open>raise_for_status\<close> raises\<close>
  | NotJSON               \<comment> \<open>\<open>response.json()\<close> raises \<open>JSONDecodeError\<close>\<close>
  | Json pyval            \<comment> \<open>\<open>response.json()\<close> returns this value\<close>

text \<open>
  The trace of a run: every \<open>time.sleep\<close> with its call site and its argument, and
  every \<open>session.post\<close> with the clock reading at which it is issued and the fields
  \<open>q\<close> and \<open>target\<close> of its payload.
\<close>

datatype event =
    RateLimitSleep real
  | BackoffSleep real
  | Posted real string string

text \<open>
  The world outside the client: the clock that \<open>time.time()\<close> reads and
  \<open>time.sleep\<close> advances, the network (the \<open>n\<close>-th post of the run takes
  \<open>fst (network n)\<close> seconds and ends as \<open>snd (network n)\<close>), and the trace so far.
\<close>

record world =
  clock :: real
  network :: "nat \<Rightarrow> real \<times> post_outcome"
  events :: "event list"

definition post_times :: "world \<Rightarrow> real list" where
  "post_times w = concat (map (\<lambda>e. case e of Posted t q tgt \<Rightarrow> [t] | _ \<Rightarrow> []) (events w))"

text \<open>\<open>time.sleep(d)\<close>: raises \<open>ValueError\<close> for a negative \<open>d\<close>.\<close>

definition time_sleep :: "(real \<Rightarrow> event) \<Rightarrow> real \<Rightarrow> world \<Rightarrow> exn + world" where
  "time_sleep site d w =
     (if d < 0 then Inl (ValueError NegativeSleep)
      else Inr (w\<lparr> clock := clock w + d, events := events w @ [site d] \<rparr>))"

section \<open>Rate limiting and backoff\<close>

definition rate_limit :: "client \<Rightarrow> world \<Rightarrow> exn + client \<times> world" where
  "rate_limit c w =
     (let current_time = clock w;
          elapsed = current_time - last_request_time c
      in if elapsed < REQUEST_TIMEOUT c
         then (case time_sleep RateLimitSleep (REQUEST_TIMEOUT c - elapsed) w of
                 Inl e \<Rightarrow> Inl e
               | Inr w' \<Rightarrow> Inr (c\<lparr> last_request_time := clock w' \<rparr>, w'))
         else Inr (c\<lparr> last_request_time := clock w \<rparr>, w))"

definition calculate_retry_delay :: "client \<Rightarrow> nat \<Rightarrow> real" where
  "calculate_retry_delay c attempt =
     (if RETRY_STRATEGY c = EXPONENTIAL then RETRY_DELAY c * 2 ^ attempt
      else if RETRY_STRATEGY c = LINEAR then RETRY_DELAY c * (real attempt + 1)
      else 0)"

section \<open>The two transports\<close>

text \<open>
  The translations of the table are only ever returned. Each is held as the octets of
  the UTF-8 encoding of its literal, character for character as the source file has
  it. The keys are ASCII.
\<close>

definition mock_translations :: "((string \<times> string) \<times> string) list" where
  "mock_translations = [
    ((''hello world'', ''es''), ''Hola mundo''),
    ((''hello world'', ''fr''), ''Bonjour le monde''),
    ((''hello world'', ''de''), ''Hallo Welt''),
    ((''hello world'', ''ja''), [CHR 0xE2, CHR 0x80, CHR 0x9E, CHR 0xC3, CHR 0x85, CHR 0xC3, CHR 0xAC, CHR 0xE2, CHR 0x80, CHR 0x9E, CHR 0xC3, CHR 0x87, CHR 0xC3, CHR 0xAC, CHR 0xE2, CHR 0x80, CHR 0x9E, CHR 0xC3, CHR 0x85, CHR 0xC2, CHR 0xB4, CHR 0xE2, CHR 0x80, CHR 0x9E, CHR 0xC3, CHR 0x85, CHR 0xC2, CHR 0xB0, CHR 0xE2, CHR 0x80, CHR 0x9E, CHR 0xC3, CHR 0x85, CHR 0xC3, CHR 0x98, CHR 0xE2, CHR 0x80, CHR 0xB0, CHR 0xE2, CHR 0x88, CHR 0x8F, CHR 0xC3, CHR 0xB1, CHR 0xC3, CHR 0x81, CHR 0xC3, CHR 0xAF, CHR 0xC3, CHR 0xA5]),
    ((''hello world'', ''zh''), [CHR 0xE2, CHR 0x80, CHR 0xB0, CHR 0xCE, CHR 0xA9, CHR 0xE2, CHR 0x80, CHR 0xA0, CHR 0xC3, CHR 0x82, CHR 0xE2, CHR 0x80, CHR 0xA2, CHR 0xCE, CHR 0xA9, CHR 0xE2, CHR 0x80, CHR 0xB0, CHR 0xE2, CHR 0x88, CHR 0x8F, CHR 0xC3, CHR 0xB1, CHR 0xC3, CHR 0x81, CHR 0xC3, CHR 0xAF, CHR 0xC3, CHR 0xA5]),
    ((''hello world'', ''ru''), [CHR 0xE2, CHR 0x80, CHR 0x93, CHR 0xC3, CHR 0xBC, CHR 0xE2, CHR 0x80, CHR 0x94, CHR 0xC3, CHR 0x84, CHR 0xE2, CHR 0x80, CHR 0x93, CHR 0xE2, CHR 0x88, CHR 0x8F, CHR 0xE2, CHR 0x80, CHR 0x93, CHR 0xE2, CHR 0x89, CHR 0xA4, CHR 0xE2, CHR 0x80, CHR 0x93, CHR 0xC2, CHR 0xB5, CHR 0xE2, CHR 0x80, CHR 0x94, CHR 0xC3, CHR 0x87] @ '' '' @ [CHR 0xE2, CHR 0x80, CHR 0x93, CHR 0xC2, CHR 0xBA, CHR 0xE2, CHR 0x80, CHR 0x93, CHR 0xE2, CHR 0x88, CHR 0x8F, CHR 0xE2, CHR 0x80, CHR 0x94, CHR 0xC3, CHR 0x84]),
    ((''good morning'', ''es''), ''Buenos d'' @ [CHR 0xE2, CHR 0x88, CHR 0x9A, CHR 0xE2, CHR 0x89, CHR 0xA0] @ ''as''),
    ((''good morning'', ''fr''), ''Bonjour''),
    ((''good morning'', ''de''), ''Guten Morgen''),
    ((''good morning'', ''ja''), [CHR 0xE2, CHR 0x80, CHR 0x9E, CHR 0xC3, CHR 0x85, CHR 0xC3, CHR 0xA4, CHR 0xE2, CHR 0x80, CHR 0x9E, CHR 0xC3, CHR 0x85, CHR 0xC3, CHR 0x98, CHR 0xE2, CHR 0x80, CHR 0x9E, CHR 0xC3, CHR 0x87, CHR 0xC3, CHR 0xA0, CHR 0xE2, CHR 0x80, CHR 0x9E, CHR 0xC3, CHR 0x85, CHR 0xC3, CHR 0x9C, CHR 0xE2, CHR 0x80, CHR 0x9E, CHR 0xC3, CHR 0x85, CHR 0xC3, CHR 0xAE, CHR 0xE2, CHR 0x80, CHR 0x9E, CHR 0xC3, CHR 0x85, CHR 0xC3, CHR 0xB1, CHR 0xE2, CHR 0x80, CHR 0x9E, CHR 0xC3, CHR 0x85, CHR 0xC3, CHR 0x91, CHR 0xE2, CHR 0x80, CHR 0x9E, CHR 0xC3, CHR 0x85, CHR 0xC3, CHR 0xA6, CHR 0xE2, CHR 0x80, CHR 0x9E, CHR 0xC3, CHR 0x85, CHR 0xC3, CHR 0xB4]),
    ((''how are you'', ''de''), ''Wie geht es dir?''),
    ((''how are you'', ''es''), [CHR 0xC2, CHR 0xAC, CHR 0xC3, CHR 0xB8] @ ''C'' @ [CHR 0xE2, CHR 0x88, CHR 0x9A, CHR 0xE2, CHR 0x89, CHR 0xA5] @ ''mo est'' @ [CHR 0xE2, CHR 0x88, CHR 0x9A, CHR 0xC2, CHR 0xB0] @ ''s?''),
    ((''how are you'', ''fr''), ''Comment allez-vous?''),
    ((''how are you'', ''ja''), [CHR 0xE2, CHR 0x80, CHR 0x9E, CHR 0xC3, CHR 0x85, CHR 0xC3, CHR 0xA4, CHR 0xC3, CHR 0x82, CHR 0xC3, CHR 0x96, CHR 0xC3, CHR 0x89, CHR 0xC3, CHR 0x8A, CHR 0xE2, CHR 0x88, CHR 0x9E, CHR 0xC3, CHR 0xB3, CHR 0xE2, CHR 0x80, CHR 0x9E, CHR 0xC3, CHR 0x85, CHR 0xC3, CHR 0x9F, CHR 0xE2, CHR 0x80, CHR 0x9E, CHR 0xC3, CHR 0x85, CHR 0xC3, CHR 0xB4, CHR 0xE2, CHR 0x80, CHR 0x9E, CHR 0xC3, CHR 0x85, CHR 0xC3, CHR 0xA3, CHR 0xC3, CHR 0x94, CHR 0xC2, CHR 0xBA, CHR 0xC3, CHR 0xBC]),
    ((''thank you'', ''fr''), ''Merci''),
    ((''thank you'', ''es''), ''Gracias''),
    ((''thank you'', ''de''), ''Danke''),
    ((''thank you'', ''ja''), [CHR 0xE2, CHR 0x80, CHR 0x9E, CHR 0xC3, CHR 0x85, CHR 0xC3, CHR 0x87, CHR 0xE2, CHR 0x80, CHR 0x9E, CHR 0xC3, CHR 0x87, CHR 0xC3, CHR 0xA4, CHR 0xE2, CHR 0x80, CHR 0x9E, CHR 0xC3, CHR 0x85, CHR 0xC3, CHR 0xA5, CHR 0xE2, CHR 0x80, CHR 0x9E, CHR 0xC3, CHR 0x85, CHR 0xC2, CHR 0xAE, CHR 0xE2, CHR 0x80, CHR 0x9E, CHR 0xC3, CHR 0x85, CHR 0xC3, CHR 0x9C, CHR 0xE2, CHR 0x80, CHR 0x9E, CHR 0xC3, CHR 0x85, CHR 0xC3, CHR 0xAE, CHR 0xE2, CHR 0x80, CHR 0x9E, CHR 0xC3, CHR 0x85, CHR 0xC3, CHR 0xB1, CHR 0xE2, CHR 0x80, CHR 0x9E, CHR 0xC3, CHR 0x85, CHR 0xC3, CHR 0x91, CHR 0xE2, CHR 0x80, CHR 0x9E, CHR 0xC3, CHR 0x85, CHR 0xC3, CHR 0xA6, CHR 0xE2, CHR 0x80, CHR 0x9E, CHR 0xC3, CHR 0x85, CHR 0xC3, CHR 0xB4]),
    ((''goodbye'', ''ja''), [CHR 0xE2, CHR 0x80, CHR 0x9E, CHR 0xC3, CHR 0x85, CHR 0xC3, CHR 0xAF, CHR 0xE2, CHR 0x80, CHR 0x9E, CHR 0xC3, CHR 0x87, CHR 0xC3, CHR 0xA0, CHR 0xE2, CHR 0x80, CHR 0x9E, CHR 0xC3, CHR 0x85, CHR 0xC3, CHR 0x9C, CHR 0xE2, CHR 0x80, CHR 0x9E, CHR 0xC3, CHR 0x85, CHR 0xE2, CHR 0x84, CHR 0xA2, CHR 0xE2, CHR 0x80, CHR 0x9E, CHR 0xC3, CHR 0x87, CHR 0xC3, CHR 0xA2]),
    ((''goodbye'', ''es''), ''Adi'' @ [CHR 0xE2, CHR 0x88, CHR 0x9A, CHR 0xE2, CHR 0x89, CHR 0xA5] @ ''s''),
    ((''goodbye'', ''fr''), ''Au revoir'')]"

text \<open>
  \<open>_fetch_mock_translation\<close> reads the clock for its time stamp and touches nothing
  else; it has no \<open>raise\<close> and no call that can raise.
\<close>

definition fetch_mock_translation :: "world \<Rightarrow> string \<Rightarrow> string \<Rightarrow> dict" where
  "fetch_mock_translation w text target_language =
     (let key = (lower text, lower target_language);
          translated =
            (case map_of mock_translations key of
               Some t \<Rightarrow> t
             | None \<Rightarrow>
                 ''['' @ (case map_of SUPPORTED_LANGUAGES (lower target_language) of
                            Some name \<Rightarrow> name | None \<Rightarrow> ''Unknown'')
                 @ '' translation of '' @ [CHR 0x27] @ text @ [CHR 0x27] @ '']'')
      in [(''translatedText'', PStr translated),
          (''detectedLanguage'', PDict [(''language'', PStr ''en''), (''confidence'', PFloat (95/100))]),
          (''timestamp'', PIsoTime (clock w)),
          (''is_mock'', PBool True)])"

text \<open>
  The checks of \<open>_fetch_real_translation\<close> on the decoded response (from
  \<open>if not isinstance(data, dict)\<close> to \<open>return data\<close>), at clock reading \<open>now\<close>.
\<close>

definition check_response :: "pyval \<Rightarrow> real \<Rightarrow> exn + dict" where
  "check_response data now =
     (case data of
        PDict d \<Rightarrow>
          (case map_of d ''error'' of
             Some error_msg \<Rightarrow>
               (case error_msg of
                  PStr s \<Rightarrow>
                    if str_in ''quota'' (lower s) \<or> str_in ''limit'' (lower s)
                    then Inl (ConnectionError (QuotaExceeded s))
                    else if str_in ''language'' (lower s)
                    then Inl (ValueError (InvalidLanguage s))
                    else Inl (ConnectionError (ApiError s))
                | _ \<Rightarrow> Inl AttributeError)
           | None \<Rightarrow>
               if map_of d ''translatedText'' = None
               then Inl (ValueError MissingTranslatedText)
               else Inr (dict_set ''is_mock'' (PBool False)
                          (dict_set ''timestamp'' (PIsoTime now) d)))
      | _ \<Rightarrow> Inl (ValueError ExpectedObject))"

definition fetch_real_translation ::
    "client \<Rightarrow> world \<Rightarrow> string \<Rightarrow> string \<Rightarrow> (exn + dict) \<times> client \<times> world" where
  "fetch_real_translation c w text target_language =
     (case rate_limit c w of
        Inl e \<Rightarrow> (Inl e, c, w)
      | Inr (c1, w1) \<Rightarrow>
          (let reply = network w1 (length (post_times w1));
               w2 = w1\<lparr> clock := clock w1 + fst reply,
                        events := events w1 @ [Posted (clock w1) text (lower target_language)] \<rparr>
           in case snd reply of
                Raises e \<Rightarrow>
                  if isinstance_Timeout e then (Inl TimeoutError, c1, w2)
                  else if isinstance_ConnectionError e
                  then (Inl (ConnectionError FailedToConnect), c1, w2)
                  else (Inl RequestException, c1, w2)
              | NotJSON \<Rightarrow> (Inl (ValueError InvalidJSON), c1, w2)
              | Json data \<Rightarrow> (check_response data (clock w2), c1, w2)))"

section \<open>The retry loop\<close>

text \<open>
  The two \<open>except\<close> clauses of \<open>translate\<close>: the first catches \<open>TimeoutError\<close> and
  \<open>ConnectionError\<close>, the second \<open>ValueError\<close> and \<open>RequestException\<close>; any other
  exception passes through both.
\<close>

fun caught_for_retry :: "exn \<Rightarrow> bool" where
  "caught_for_retry TimeoutError = True"
| "caught_for_retry (ConnectionError m) = True"
| "caught_for_retry _ = False"

text \<open>
  The \<open>for\<close> loop of \<open>translate\<close> over the attempts still to run, and the
  \<open>raise last_error\<close> after it. A bare \<open>raise\<close> raises the exception again that was
  caught; an exception of \<open>time.sleep\<close> inside the handler leaves \<open>translate\<close>. The
  \<open>print\<close> before the sleep is left out.
\<close>

fun translate_attempts ::
    "client \<Rightarrow> world \<Rightarrow> string \<Rightarrow> string \<Rightarrow> nat list \<Rightarrow> exn option
       \<Rightarrow> (exn + dict) \<times> client \<times> world" where
  "translate_attempts c w text target_language [] last_error =
     (case last_error of
        None \<Rightarrow> (Inl TypeError, c, w)
      | Some e \<Rightarrow> (Inl e, c, w))"
| "translate_attempts c w text target_language (attempt # rest) last_error =
     (case (if use_mock c then (Inr (fetch_mock_translation w text target_language), c, w)
            else fetch_real_translation c w text target_language) of
        (Inr result, c', w') \<Rightarrow>
          (Inr (dict_set ''attempts'' (PInt (int attempt + 1)) result), c', w')
      | (Inl e, c', w') \<Rightarrow>
          if caught_for_retry e then
            (if int attempt < max_retries c' - 1 then
               (case time_sleep BackoffSleep (calculate_retry_delay c' attempt) w' of
                  Inl e' \<Rightarrow> (Inl e', c', w')
                | Inr w'' \<Rightarrow> translate_attempts c' w'' text target_language rest (Some e))
             else (Inl e, c', w'))
          else (Inl e, c', w'))"

definition translate ::
    "client \<Rightarrow> world \<Rightarrow> string \<Rightarrow> string \<Rightarrow> (exn + dict) \<times> client \<times> world" where
  "translate c w text target_language =
     (case validate_input text target_language of
        (False, error_msg) \<Rightarrow> (Inl (ValueError (InputRejected error_msg)), c, w)
      | (True, error_msg) \<Rightarrow>
          translate_attempts c w text target_language [0..<nat (max_retries c)] None)"

section \<open>Notions used to state the properties\<close>

text \<open>
  The failure classes of the design and its set of retryable classes, and the class
  that the design gives to each exception the client raises: a timeout of the transport
  is \<open>Timeout\<close>, a connect-level failure \<open>ConnectionFailure\<close>, any other exception of
  the transport \<open>ProtocolError\<close>; an error field that mentions quota or limit is
  \<open>RateLimited\<close>, one that mentions language \<open>UnsupportedLanguage\<close>, any other
  \<open>ProtocolError\<close>; a response that is no JSON object or lacks the translated text is
  \<open>MalformedResponse\<close>. The exceptions that no raise of the client's own code
  produces have no class.
\<close>

datatype ClassifiedFailure =
    Validation | Timeout | ConnectionFailure | RateLimited
  | MalformedResponse | UnsupportedLanguage | ProtocolError

fun retryable :: "ClassifiedFailure \<Rightarrow> bool" where
  "retryable Timeout = True"
| "retryable ConnectionFailure = True"
| "retryable RateLimited = True"
| "retryable ProtocolError = True"
| "retryable Validation = False"
| "retryable MalformedResponse = False"
| "retryable UnsupportedLanguage = False"

fun classified :: "exn \<Rightarrow> ClassifiedFailure option" where
  "classified TimeoutError = Some Timeout"
| "classified (ConnectionError FailedToConnect) = Some ConnectionFailure"
| "classified (ConnectionError (QuotaExceeded m)) = Some RateLimited"
| "classified (ConnectionError (ApiError m)) = Some ProtocolError"
| "classified RequestException = Some ProtocolError"
| "classified (ValueError (InputRejected m)) = Some Validation"
| "classified (ValueError InvalidJSON) = Some MalformedResponse"
| "classified (ValueError ExpectedObject) = Some MalformedResponse"
| "classified (ValueError (InvalidLanguage m)) = Some UnsupportedLanguage"
| "classified (ValueError MissingTranslatedText) = Some MalformedResponse"
| "classified (ValueError NegativeSleep) = None"
| "classified AttributeError = None"
| "classified TypeError = None"

text \<open>
  The attempts and the backoff waits of a trace, in the order they happen; the waits
  of the rate limiter are not part of it.
\<close>

datatype step = Attempt | Wait real

definition schedule :: "world \<Rightarrow> step list" where
  "schedule w = concat (map (\<lambda>e. case e of
                                    Posted t q tgt \<Rightarrow> [Attempt]
                                  | BackoffSleep d \<Rightarrow> [Wait d]
                                  | RateLimitSleep d \<Rightarrow> []) (events w))"

text \<open>Each time of the list is at least \<open>d\<close> after the one before it.\<close>

fun spaced :: "real \<Rightarrow> real list \<Rightarrow> bool" where
  "spaced d [] = True"
| "spaced d [t] = True"
| "spaced d (t # u # ts) = (t + d \<le> u \<and> spaced d (u # ts))"

text \<open>
  The state of a client and the trace of its posts fit together: the posts are spaced
  by \<open>REQUEST_TIMEOUT\<close> and \<open>last_request_time\<close> is the time of the latest one.
\<close>

definition rate_inv :: "client \<Rightarrow> world \<Rightarrow> bool" where
  "rate_inv c w = (spaced (REQUEST_TIMEOUT c) (post_times w) \<and>
                   (post_times w \<noteq> [] \<longrightarrow> last (post_times w) = last_request_time c))"

text \<open>A network that takes \<open>d\<close> seconds for every post and ends each one as \<open>r\<close>.\<close>

definition steady_network :: "real \<Rightarrow> post_outcome \<Rightarrow> nat \<Rightarrow> real \<times> post_outcome" where
  "steady_network d r n = (d, r)"

text \<open>A world with nothing in its trace yet, at clock reading 1000.\<close>

definition fresh_world :: "(nat \<Rightarrow> real \<times> post_outcome) \<Rightarrow> world" where
  "fresh_world net = \<lparr> clock = 1000, network = net, events = [] \<rparr>"

text \<open>A text of 5001 characters: the letter a and 5000 spaces after it.\<close>

definition padded_text :: string where
  "padded_text = CHR ''a'' # replicate 5000 CHR '' ''"

text \<open>
  Two worlds for the examples: a provider that answers every post with an error field
  that names neither quota, limit nor language, and one whose every post ends in an
  HTTP error status, which \<open>raise_for_status\<close> raises as \<open>HTTPError\<close>.
\<close>

definition busy_world :: world where
  "busy_world = fresh_world (steady_network 1 (Json (PDict [(''error'', PStr ''Server busy'')])))"

definition failing_world :: world where
  "failing_world = fresh_world (steady_network 1 (Raises HTTPError))"

text \<open>
  A live client whose latest request was a quarter of a second before the clock reading
  of \<open>busy_world\<close>, and a world in which two posts have been made.
\<close>

definition recent_client :: client where
  "recent_client = (init 3 False)\<lparr> last_request_time := 3999/4 \<rparr>"

definition two_posts_world :: world where
  "two_posts_world = busy_world\<lparr> clock := 1003,
       events := [Posted 1000 ''hello'' ''es'', BackoffSleep 1, Posted 1002 ''hello'' ''es''] \<rparr>"

text \<open>
  A provider that answers every post with a JSON object whose error field is itself an
  object.
\<close>

definition structured_error_world :: world where
  "structured_error_world = fresh_world (steady_network 1
     (Json (PDict [(''error'', PDict [(''code'', PInt 429), (''message'', PStr ''quota exceeded'')])])))"

section \<open>Strings: basic facts\<close>

lemma isspace_lower_char: "isspace (lower_char c) = isspace c"
  by (auto simp: isspace_def lower_char_def Let_def)

lemma strip_lower: "strip (lower s) = lower (strip s)"
  by (simp add: strip_def lower_def dropWhile_map rev_map comp_def isspace_lower_char)

lemma lower_Nil_iff: "lower s = [] \<longleftrightarrow> s = []"
  by (simp add: lower_def)

lemma lower_Nil: "lower [] = []"
  by (simp add: lower_def)

lemma Nil_not_supported: "[] \<notin> set (map fst SUPPORTED_LANGUAGES)"
  by (simp add: SUPPORTED_LANGUAGES_def)

lemma strip_Nil: "strip [] = []"
  by (simp add: strip_def)

lemma validate_input_ok_iff:
  "validate_input text tgt = (True, None) \<longleftrightarrow>
     strip text \<noteq> [] \<and> length (strip text) \<le> 5000 \<and>
     strip (lower tgt) \<in> set (map fst SUPPORTED_LANGUAGES)"
  using Nil_not_supported
  by (auto simp: validate_input_def Let_def strip_lower lower_Nil_iff lower_Nil strip_Nil
           simp del: set_map)

lemma validate_input_fst: "fst (validate_input text tgt) \<longleftrightarrow> validate_input text tgt = (True, None)"
  by (auto simp: validate_input_def Let_def)

lemma strip_padded: "\<not> isspace x \<Longrightarrow> strip (x # replicate n CHR '' '') = [x]"
proof -
  assume x: "\<not> isspace x"
  have sp: "isspace CHR '' ''" by (simp add: isspace_def)
  have "dropWhile isspace (replicate n CHR '' '' @ [x]) = [x]"
    using x sp by (induction n) simp_all
  then show ?thesis using x by (simp add: strip_def)
qed

section \<open>The rate limiter and one live call\<close>

lemma rate_limit_eq:
  "rate_limit c w =
     Inr (c\<lparr> last_request_time := max (clock w) (last_request_time c + REQUEST_TIMEOUT c) \<rparr>,
          if clock w - last_request_time c < REQUEST_TIMEOUT c
          then w\<lparr> clock := last_request_time c + REQUEST_TIMEOUT c,
                   events := events w @ [RateLimitSleep (REQUEST_TIMEOUT c - (clock w - last_request_time c))] \<rparr>
          else w)"
  by (auto simp: rate_limit_def time_sleep_def Let_def max_def)

lemma rate_limit_facts:
  assumes "rate_limit c w = Inr (c1, w1)"
  shows "c1 = c\<lparr> last_request_time := clock w1 \<rparr>"
    and "clock w1 = max (clock w) (last_request_time c + REQUEST_TIMEOUT c)"
    and "network w1 = network w"
    and "post_times w1 = post_times w"
    and "schedule w1 = schedule w"
  using assms by (auto simp: rate_limit_eq post_times_def schedule_def max_def split: if_splits)

lemma rate_limit_total: "\<exists>c1 w1. rate_limit c w = Inr (c1, w1)"
  by (simp add: rate_limit_eq)

lemma fetch_real_facts:
  assumes "fetch_real_translation c w text tgt = (r, c1, w1)"
  shows "c1 = c\<lparr> last_request_time := max (clock w) (last_request_time c + REQUEST_TIMEOUT c) \<rparr>"
    and "network w1 = network w"
    and "post_times w1 = post_times w @ [last_request_time c1]"
    and "schedule w1 = schedule w @ [Attempt]"
proof -
  obtain c0 w0 where rl: "rate_limit c w = Inr (c0, w0)"
    using rate_limit_total by blast
  note f = rate_limit_facts [OF rl]
  from assms rl have c1: "c1 = c0"
    and w1: "w1 = w0\<lparr> clock := clock w0 + fst (network w0 (length (post_times w0))),
                        events := events w0 @ [Posted (clock w0) text (lower tgt)] \<rparr>"
    by (auto simp: fetch_real_translation_def Let_def split: post_outcome.splits if_splits)
  show "c1 = c\<lparr> last_request_time := max (clock w) (last_request_time c + REQUEST_TIMEOUT c) \<rparr>"
    using c1 f(1,2) by simp
  show "network w1 = network w" using w1 f(3) by simp
  show "post_times w1 = post_times w @ [last_request_time c1]"
    using w1 c1 f(1,4) by (simp add: post_times_def)
  show "schedule w1 = schedule w @ [Attempt]"
    using w1 f(5) by (simp add: schedule_def)
qed

lemma fetch_real_result:
  "fst (fetch_real_translation c w text tgt) =
     (case snd (network w (length (post_times w))) of
        Raises e \<Rightarrow> if isinstance_Timeout e then Inl TimeoutError
                    else if isinstance_ConnectionError e then Inl (ConnectionError FailedToConnect)
                    else Inl RequestException
      | NotJSON \<Rightarrow> Inl (ValueError InvalidJSON)
      | Json data \<Rightarrow> check_response data
          (max (clock w) (last_request_time c + REQUEST_TIMEOUT c)
             + fst (network w (length (post_times w)))))"
proof -
  obtain c0 w0 where rl: "rate_limit c w = Inr (c0, w0)"
    using rate_limit_total by blast
  note f = rate_limit_facts [OF rl]
  show ?thesis
    by (simp add: fetch_real_translation_def rl Let_def f(2,3,4) split: post_outcome.splits)
qed

lemma time_sleep_backoff:
  "0 \<le> d \<Longrightarrow> time_sleep BackoffSleep d w =
     Inr (w\<lparr> clock := clock w + d, events := events w @ [BackoffSleep d] \<rparr>)"
  by (simp add: time_sleep_def)

section \<open>The retry loop only extends the trace\<close>

lemma translate_attempts_facts:
  "translate_attempts c w text tgt as le = (r, c', w') \<Longrightarrow>
     network w' = network w \<and> (\<exists>ts. post_times w' = post_times w @ ts) \<and>
     c' = c\<lparr> last_request_time := last_request_time c' \<rparr>"
proof (induction as arbitrary: c w le)
  case Nil
  then show ?case by (auto split: option.splits)
next
  case (Cons a as)
  show ?case
  proof (cases "use_mock c")
    case True
    with Cons.prems show ?thesis by auto
  next
    case False
    obtain r1 c1 w1 where fr: "fetch_real_translation c w text tgt = (r1, c1, w1)"
      by (metis prod_cases3)
    note f = fetch_real_facts [OF fr]
    show ?thesis
    proof (cases "\<exists>e. r1 = Inl e \<and> caught_for_retry e \<and> int a < max_retries c1 - 1
                      \<and> 0 \<le> calculate_retry_delay c1 a")
      case True
      then obtain e where e: "r1 = Inl e" "caught_for_retry e" "int a < max_retries c1 - 1"
        "0 \<le> calculate_retry_delay c1 a" by blast
      let ?w2 = "w1\<lparr> clock := clock w1 + calculate_retry_delay c1 a,
                      events := events w1 @ [BackoffSleep (calculate_retry_delay c1 a)] \<rparr>"
      from Cons.prems False fr e
      have "translate_attempts c1 ?w2 text tgt as (Some e) = (r, c', w')"
        by (simp add: time_sleep_backoff)
      from Cons.IH [OF this] f(1,2,3) show ?thesis
        by (auto simp: post_times_def)
    next
      case F2: False
      with Cons.prems False fr have "c' = c1 \<and> w' = w1"
        by (auto simp: time_sleep_def split: sum.splits if_splits)
      with f show ?thesis by auto
    qed
  qed
qed

lemma translate_attempts_live_posts:
  assumes "\<not> use_mock c" and "as \<noteq> []"
  shows "length (post_times w)
           < length (post_times (snd (snd (translate_attempts c w text tgt as le))))"
proof -
  obtain a rest where as: "as = a # rest" using assms(2) by (cases as) auto
  obtain r1 c1 w1 where fr: "fetch_real_translation c w text tgt = (r1, c1, w1)"
    by (metis prod_cases3)
  note f = fetch_real_facts [OF fr]
  obtain r c' w' where ta: "translate_attempts c w text tgt as le = (r, c', w')"
    by (metis prod_cases3)
  have "\<exists>ts. post_times w' = post_times w1 @ ts"
  proof (cases "\<exists>e. r1 = Inl e \<and> caught_for_retry e \<and> int a < max_retries c1 - 1
                    \<and> 0 \<le> calculate_retry_delay c1 a")
    case True
    then obtain e where e: "r1 = Inl e" "caught_for_retry e" "int a < max_retries c1 - 1"
      "0 \<le> calculate_retry_delay c1 a" by blast
    let ?w2 = "w1\<lparr> clock := clock w1 + calculate_retry_delay c1 a,
                    events := events w1 @ [BackoffSleep (calculate_retry_delay c1 a)] \<rparr>"
    from ta as assms(1) fr e
    have "translate_attempts c1 ?w2 text tgt rest (Some e) = (r, c', w')"
      by (simp add: time_sleep_backoff)
    from translate_attempts_facts [OF this] show ?thesis
      by (auto simp: post_times_def)
  next
    case False
    with ta as assms(1) fr have "w' = w1"
      by (auto simp: time_sleep_def split: sum.splits if_splits)
    then show ?thesis by simp
  qed
  with f(3) ta show ?thesis by auto
qed

section \<open>The checks on a decoded response\<close>

text \<open>
  On a response whose error field, when there is one, is a string, the checks run in
  the order of the design and give its classes.
\<close>

lemma check_response_rules:
  "((\<forall>d. data \<noteq> PDict d)
      \<longrightarrow> (\<exists>e. check_response data t = Inl e \<and> classified e = Some MalformedResponse))
   \<and> (data = PDict d \<and> map_of d ''error'' = Some (PStr m)
      \<longrightarrow> (\<exists>e. check_response data t = Inl e \<and>
               classified e = Some (if str_in ''quota'' (lower m) \<or> str_in ''limit'' (lower m)
                                    then RateLimited
                                    else if str_in ''language'' (lower m) then UnsupportedLanguage
                                    else ProtocolError)))
   \<and> (data = PDict d \<and> map_of d ''error'' = None \<and> map_of d ''translatedText'' = None
      \<longrightarrow> (\<exists>e. check_response data t = Inl e \<and> classified e = Some MalformedResponse))
   \<and> (data = PDict d \<and> map_of d ''error'' = None \<and> map_of d ''translatedText'' \<noteq> None
      \<longrightarrow> check_response data t
            = Inr (dict_set ''is_mock'' (PBool False) (dict_set ''timestamp'' (PIsoTime t) d)))"
  by (cases data) (auto simp: check_response_def)

section \<open>One iteration of the retry loop\<close>

lemma schedule_backoff:
  "schedule (w\<lparr> clock := t, events := events w @ [BackoffSleep d] \<rparr>) = schedule w @ [Wait d]"
  by (simp add: schedule_def)

lemma fetch_real_config:
  assumes "fetch_real_translation c w s tgt = (r, c1, w1)"
  shows "max_retries c1 = max_retries c" and "use_mock c1 = use_mock c"
    and "calculate_retry_delay c1 n = calculate_retry_delay c n"
    and "REQUEST_TIMEOUT c1 = REQUEST_TIMEOUT c"
  using fetch_real_facts(1) [OF assms] by (simp_all add: calculate_retry_delay_def)

lemma fetch_real_timeout:
  assumes "\<forall>n. \<exists>e. snd (network w n) = Raises e \<and> isinstance_Timeout e"
  shows "fst (fetch_real_translation c w s tgt) = Inl TimeoutError"
proof -
  from assms obtain e where "snd (network w (length (post_times w))) = Raises e"
    "isinstance_Timeout e" by blast
  then show ?thesis by (simp add: fetch_real_result)
qed

lemma translate_attempts_retry:
  assumes "\<not> use_mock c" and "fetch_real_translation c w s tgt = (Inl e, c1, w1)"
    and "caught_for_retry e" and "int a < max_retries c - 1"
    and "0 \<le> calculate_retry_delay c a"
  shows "translate_attempts c w s tgt (a # rest) le
           = translate_attempts c1
               (w1\<lparr> clock := clock w1 + calculate_retry_delay c a,
                    events := events w1 @ [BackoffSleep (calculate_retry_delay c a)] \<rparr>)
               s tgt rest (Some e)"
  using assms fetch_real_config [OF assms(2)]
  by (simp add: time_sleep_backoff)

lemma translate_attempts_last:
  assumes "\<not> use_mock c" and "fetch_real_translation c w s tgt = (Inl e, c1, w1)"
    and "\<not> int a < max_retries c - 1"
  shows "translate_attempts c w s tgt (a # rest) le = (Inl e, c1, w1)"
  using assms fetch_real_config [OF assms(2)]
  by simp

lemma translate_attempts_not_caught:
  assumes "\<not> use_mock c" and "fetch_real_translation c w s tgt = (Inl e, c1, w1)"
    and "\<not> caught_for_retry e"
  shows "translate_attempts c w s tgt (a # rest) le = (Inl e, c1, w1)"
  using assms by simp

lemma caught_for_retry_iff:
  "caught_for_retry e \<longleftrightarrow> (\<exists>f. classified e = Some f \<and> retryable f) \<and> e \<noteq> RequestException"
  by (induction e rule: classified.induct) auto

lemma post_times_backoff:
  "post_times (w\<lparr> clock := t, events := events w @ [BackoffSleep d] \<rparr>) = post_times w"
  by (simp add: post_times_def)

section \<open>The spacing of the posts\<close>

lemma spaced_snoc:
  "spaced d (ts @ [t]) \<longleftrightarrow> spaced d ts \<and> (ts \<noteq> [] \<longrightarrow> last ts + d \<le> t)"
  by (induction d ts rule: spaced.induct) auto

lemma spaced_tail: "spaced d (t # ts) \<Longrightarrow> spaced d ts"
  by (cases ts) auto

lemma spaced_head_le:
  "0 \<le> d \<Longrightarrow> spaced d (t # ts) \<Longrightarrow> j < length ts \<Longrightarrow> t + d \<le> ts ! j"
proof (induction ts arbitrary: t j)
  case Nil
  then show ?case by simp
next
  case (Cons u us)
  show ?case
  proof (cases j)
    case 0
    with Cons.prems show ?thesis by simp
  next
    case (Suc k)
    from Cons.prems have "t + d \<le> u" and "spaced d (u # us)" by simp_all
    moreover from Cons.prems Suc have "k < length us" by simp
    ultimately have "u + d \<le> us ! k" using Cons.IH Cons.prems(1) by blast
    with \<open>t + d \<le> u\<close> Cons.prems(1) Suc show ?thesis by simp
  qed
qed

lemma spaced_nth:
  "0 \<le> d \<Longrightarrow> spaced d ts \<Longrightarrow> i < j \<Longrightarrow> j < length ts \<Longrightarrow> ts ! i + d \<le> ts ! j"
proof (induction ts arbitrary: i j)
  case Nil
  then show ?case by simp
next
  case (Cons t ts)
  from Cons.prems obtain k where j: "j = Suc k" by (cases j) auto
  show ?case
  proof (cases i)
    case 0
    with Cons.prems j show ?thesis using spaced_head_le [of d t ts k] by simp
  next
    case (Suc i')
    with Cons.prems j Cons.IH [of i' k] spaced_tail [of d t ts] show ?thesis by simp
  qed
qed

lemma rate_inv_backoff:
  "rate_inv c (w\<lparr> clock := t, events := events w @ [BackoffSleep d] \<rparr>) = rate_inv c w"
  by (simp add: rate_inv_def post_times_backoff)

lemma fetch_real_rate_inv:
  assumes "rate_inv c w" and "fetch_real_translation c w s tgt = (r, c1, w1)"
  shows "rate_inv c1 w1"
proof -
  note f = fetch_real_facts [OF assms(2)] and g = fetch_real_config [OF assms(2)]
  from f(1) have "last_request_time c + REQUEST_TIMEOUT c \<le> last_request_time c1" by simp
  with assms(1) f(3) g(4) show ?thesis
    by (simp add: rate_inv_def spaced_snoc)
qed

lemma translate_attempts_rate_inv:
  "rate_inv c w \<Longrightarrow> translate_attempts c w s tgt as le = (r, c', w') \<Longrightarrow> rate_inv c' w'"
proof (induction as arbitrary: c w le)
  case Nil
  then show ?case by (auto split: option.splits)
next
  case (Cons a as)
  show ?case
  proof (cases "use_mock c")
    case True
    with Cons.prems show ?thesis by auto
  next
    case False
    obtain r1 c1 w1 where fr: "fetch_real_translation c w s tgt = (r1, c1, w1)"
      by (metis prod_cases3)
    have inv1: "rate_inv c1 w1" by (rule fetch_real_rate_inv [OF Cons.prems(1) fr])
    show ?thesis
    proof (cases "\<exists>e. r1 = Inl e \<and> caught_for_retry e \<and> int a < max_retries c1 - 1
                      \<and> 0 \<le> calculate_retry_delay c1 a")
      case True
      then obtain e where e: "r1 = Inl e" "caught_for_retry e" "int a < max_retries c1 - 1"
        "0 \<le> calculate_retry_delay c1 a" by blast
      let ?w2 = "w1\<lparr> clock := clock w1 + calculate_retry_delay c1 a,
                      events := events w1 @ [BackoffSleep (calculate_retry_delay c1 a)] \<rparr>"
      from Cons.prems(2) False fr e
      have "translate_attempts c1 ?w2 s tgt as (Some e) = (r, c', w')"
        by (simp add: time_sleep_backoff)
      moreover have "rate_inv c1 ?w2" using inv1 by (simp add: rate_inv_backoff)
      ultimately show ?thesis using Cons.IH by blast
    next
      case F2: False
      with Cons.prems(2) False fr have "c' = c1 \<and> w' = w1"
        by (auto simp: time_sleep_def split: sum.splits if_splits)
      with inv1 show ?thesis by simp
    qed
  qed
qed

lemma translate_rate_inv:
  assumes "rate_inv c w" and "translate c w s tgt = (r, c', w')"
  shows "rate_inv c' w'"
proof (cases "validate_input s tgt")
  case (Pair ok msg)
  show ?thesis
  proof (cases ok)
    case True
    with Pair assms(2)
    have "translate_attempts c w s tgt [0..<nat (max_retries c)] None = (r, c', w')"
      by (simp add: translate_def)
    with assms(1) show ?thesis by (rule translate_attempts_rate_inv)
  next
    case False
    with Pair assms show ?thesis by (simp add: translate_def)
  qed
qed

lemma translate_mock_frame: "use_mock c \<Longrightarrow> snd (translate c w s tgt) = (c, w)"
proof (cases "validate_input s tgt")
  case (Pair ok msg)
  assume m: "use_mock c"
  show ?thesis
  proof (cases "[0..<nat (max_retries c)]")
    case Nil
    with Pair show ?thesis by (cases ok) (simp_all add: translate_def)
  next
    case (Cons a as)
    with Pair m show ?thesis by (cases ok) (simp_all add: translate_def)
  qed
qed

section \<open>Concrete requests\<close>

lemma valid_hello_es: "validate_input ''hello'' ''es'' = (True, None)"
  by code_simp

lemma invalid_hello_xx: "validate_input ''hello'' ''xx'' = (False, Some (LanguageInvalid ''xx''))"
  by code_simp

lemma strip_blank: "strip ''   '' = []"
  by code_simp

lemma strip_hello: "strip ''hello'' = ''hello''"
  by code_simp

lemma strip_padded_text: "strip padded_text = ''a''"
  unfolding padded_text_def by (rule strip_padded) (simp add: isspace_def)

lemma es_supported: "strip (lower ''es'') \<in> set (map fst SUPPORTED_LANGUAGES)"
  by code_simp

lemma ES_supported: "strip (lower ''ES'') \<in> set (map fst SUPPORTED_LANGUAGES)"
  by code_simp

lemma es_padded_supported: "strip (lower '' es '') \<in> set (map fst SUPPORTED_LANGUAGES)"
  by code_simp

lemma auto_supported: "strip (lower ''auto'') \<in> set (map fst SUPPORTED_LANGUAGES)"
  by code_simp

lemma valid_padded_es: "validate_input padded_text ''es'' = (True, None)"
  using es_supported by (simp only: validate_input_ok_iff strip_padded_text) simp

lemma upt_3: "[0..<3] = [0, 1, 2::nat]"
  by code_simp

lemma upt_nat_pos: "1 \<le> n \<Longrightarrow> [0..<nat n] = 0 # [1..<nat n]"
  by (simp add: upt_conv_Cons)

lemma translate_mock_valid:
  assumes "use_mock c" and "1 \<le> max_retries c" and "validate_input text tgt = (True, None)"
  shows "translate c w text tgt
           = (Inr (dict_set ''attempts'' (PInt 1) (fetch_mock_translation w text tgt)), c, w)"
  using assms by (simp add: translate_def upt_nat_pos)

lemma mock_hello_world_es:
  "fetch_mock_translation w ''hello world'' ''es''
     = [(''translatedText'', PStr ''Hola mundo''),
        (''detectedLanguage'', PDict [(''language'', PStr ''en''), (''confidence'', PFloat (95/100))]),
        (''timestamp'', PIsoTime (clock w)),
        (''is_mock'', PBool True)]"
proof -
  have k: "lower ''hello world'' = ''hello world''" "lower ''es'' = ''es''" by code_simp+
  have m: "map_of mock_translations (''hello world'', ''es'') = Some ''Hola mundo''"
    by (simp add: mock_translations_def)
  show ?thesis by (simp add: fetch_mock_translation_def k m)
qed

lemma valid_hello_world_es: "validate_input ''hello world'' ''es'' = (True, None)"
  by code_simp

lemma mock_miss_good_night_fr:
  "map_of mock_translations (lower ''good night'', lower ''FR'') = None"
  by code_simp

lemma name_FR: "map_of SUPPORTED_LANGUAGES (lower ''FR'') = Some ''French''"
  by code_simp

lemma valid_good_night_FR: "validate_input ''good night'' ''FR'' = (True, None)"
  by code_simp

lemma lower_server_busy: "lower ''Server busy'' = ''server busy''"
  by code_simp

lemma server_busy_plain:
  "\<not> str_in ''quota'' ''server busy''" "\<not> str_in ''limit'' ''server busy''"
  "\<not> str_in ''language'' ''server busy''"
  by code_simp+

lemma lower_hello_es: "lower ''es'' = ''es''"
  by code_simp

lemma fetch_real_busy:
  "fetch_real_translation (init 3 False) busy_world ''hello'' ''es''
     = (Inl (ConnectionError (ApiError ''Server busy'')),
        (init 3 False)\<lparr> last_request_time := 1000 \<rparr>,
        busy_world\<lparr> clock := 1001, events := [Posted 1000 ''hello'' ''es''] \<rparr>)"
  by (simp add: fetch_real_translation_def rate_limit_def init_def busy_world_def fresh_world_def
        steady_network_def post_times_def Let_def check_response_def lower_server_busy
        server_busy_plain lower_hello_es)

lemma rate_limit_recent:
  "rate_limit recent_client busy_world
     = Inr (recent_client\<lparr> last_request_time := 4001/4 \<rparr>,
            busy_world\<lparr> clock := 4001/4, events := [RateLimitSleep (1/4)] \<rparr>)"
  by (simp add: rate_limit_def time_sleep_def recent_client_def init_def busy_world_def
        fresh_world_def Let_def)

lemma fetch_real_recent:
  "fetch_real_translation recent_client busy_world ''hello'' ''es''
     = (Inl (ConnectionError (ApiError ''Server busy'')),
        recent_client\<lparr> last_request_time := 4001/4 \<rparr>,
        busy_world\<lparr> clock := 4005/4,
                     events := [RateLimitSleep (1/4), Posted (4001/4) ''hello'' ''es''] \<rparr>)"
  by (simp add: fetch_real_translation_def rate_limit_recent)
     (simp add: busy_world_def fresh_world_def steady_network_def post_times_def
        check_response_def lower_server_busy server_busy_plain lower_hello_es)

lemma rate_inv_two_posts:
  "rate_inv ((init 3 False)\<lparr> last_request_time := 1002 \<rparr>) two_posts_world"
  by (simp add: rate_inv_def two_posts_world_def post_times_def init_def)

section \<open>The claims\<close>

text \<open>
  C6. For every zero-indexed attempt number the backoff delay is
  \<open>RETRY_DELAY * 2 ^ attempt\<close> under the exponential strategy,
  \<open>RETRY_DELAY * (attempt + 1)\<close> under the linear strategy and \<open>0\<close> under the immediate
  strategy, whatever the attempt; the delay depends on nothing but the strategy, the base
  delay and the attempt: two clients that agree on the first two get the same delay.
\<close>

theorem backoff_delay_by_strategy:
  "(RETRY_STRATEGY c = EXPONENTIAL \<longrightarrow> calculate_retry_delay c attempt = RETRY_DELAY c * 2 ^ attempt) \<and>
   (RETRY_STRATEGY c = LINEAR \<longrightarrow> calculate_retry_delay c attempt = RETRY_DELAY c * (real attempt + 1)) \<and>
   (RETRY_STRATEGY c = IMMEDIATE \<longrightarrow> calculate_retry_delay c attempt = 0) \<and>
   (RETRY_STRATEGY c = RETRY_STRATEGY c' \<and> RETRY_DELAY c = RETRY_DELAY c'
      \<longrightarrow> calculate_retry_delay c attempt = calculate_retry_delay c' attempt)"
  by (cases "RETRY_STRATEGY c") (simp_all add: calculate_retry_delay_def)

theorem backoff_delay_by_strategy_witness:
  "calculate_retry_delay (init 3 False) 2 = 4 \<and>
   calculate_retry_delay ((init 3 False)\<lparr> RETRY_STRATEGY := LINEAR, RETRY_DELAY := 5 \<rparr>) 2 = 15 \<and>
   calculate_retry_delay ((init 3 False)\<lparr> RETRY_STRATEGY := IMMEDIATE \<rparr>) 2 = 0 \<and>
   calculate_retry_delay (init 3 False) 2 = calculate_retry_delay (init 7 True) 2"
  using backoff_delay_by_strategy [of "init 3 False" 2 "init 7 True"]
    backoff_delay_by_strategy [of "(init 3 False)\<lparr> RETRY_STRATEGY := LINEAR, RETRY_DELAY := 5 \<rparr>" 2]
    backoff_delay_by_strategy [of "(init 3 False)\<lparr> RETRY_STRATEGY := IMMEDIATE \<rparr>" 2]
  by (simp add: init_def)

text \<open>
  C9. A client built with \<open>max_retries = 0\<close> that is given a valid request runs the
  loop over the empty range, so no attempt is made and nothing is waited for, and
  \<open>raise last_error\<close> finds \<open>last_error\<close> still \<open>None\<close>: \<open>translate\<close> ends with a
  \<open>TypeError\<close>, which is neither a result nor one of the classified failures.
\<close>

theorem zero_retries_type_error:
  assumes "max_retries c = 0" and "validate_input text tgt = (True, None)"
  shows "[0..<nat (max_retries c)] = [] \<and> translate c w text tgt = (Inl TypeError, c, w)
         \<and> classified TypeError = None"
  using assms by (simp add: translate_def)

theorem zero_retries_type_error_witness:
  "max_retries (init 0 False) = 0 \<and> validate_input ''hello'' ''es'' = (True, None) \<and>
   translate (init 0 False) (fresh_world (steady_network 1 NotJSON)) ''hello'' ''es''
     = (Inl TypeError, init 0 False, fresh_world (steady_network 1 NotJSON))"
proof -
  have h1: "max_retries (init 0 False) = 0" by (simp add: init_def)
  show ?thesis
    using h1 valid_hello_es zero_retries_type_error [OF h1 valid_hello_es] by simp
qed

text \<open>
  C10. For every request that fails validation, \<open>translate\<close> raises the validation
  failure and leaves the client as it was, \<open>last_request_time\<close> included, and the world
  too: the rate limiter runs only inside the live transport of the retry loop.
\<close>

theorem validation_failure_keeps_state:
  assumes "\<not> fst (validate_input text tgt)"
  shows "translate c w text tgt
           = (Inl (ValueError (InputRejected (snd (validate_input text tgt)))), c, w)
         \<and> classified (ValueError (InputRejected (snd (validate_input text tgt)))) = Some Validation
         \<and> last_request_time (fst (snd (translate c w text tgt))) = last_request_time c
         \<and> events (snd (snd (translate c w text tgt))) = events w"
  using assms by (cases "validate_input text tgt") (simp add: translate_def)

theorem validation_failure_keeps_state_witness:
  "\<not> fst (validate_input ''hello'' ''xx'') \<and>
   translate (init 3 False) (fresh_world (steady_network 1 NotJSON)) ''hello'' ''xx''
     = (Inl (ValueError (InputRejected (Some (LanguageInvalid ''xx'')))), init 3 False,
        fresh_world (steady_network 1 NotJSON))"
proof -
  have h: "\<not> fst (validate_input ''hello'' ''xx'')" by (simp add: invalid_hello_xx)
  show ?thesis
    using h validation_failure_keeps_state
              [OF h, of "init 3 False" "fresh_world (steady_network 1 NotJSON)"]
    by (simp add: invalid_hello_xx)
qed

text \<open>
  C4, as the code has it. For a request whose text passes the text checks, the
  target-language check of \<open>validate_input\<close> accepts a code exactly when its lowercased,
  trimmed form is a key of \<open>SUPPORTED_LANGUAGES\<close>; so \<open>ES\<close>, \<open>es\<close> and \<open>es\<close> between
  spaces are accepted. The pseudo-code \<open>auto\<close> is one of the keys and is accepted as a
  target like any other: nothing in the check sets it apart.
\<close>

theorem target_accepted_iff_supported:
  assumes "strip text \<noteq> []" and "length (strip text) \<le> 5000"
  shows "(validate_input text tgt = (True, None))
           = (strip (lower tgt) \<in> set (map fst SUPPORTED_LANGUAGES))
         \<and> validate_input text ''ES'' = (True, None)
         \<and> validate_input text ''es'' = (True, None)
         \<and> validate_input text '' es '' = (True, None)
         \<and> validate_input text ''auto'' = (True, None)"
  using assms es_supported ES_supported es_padded_supported auto_supported
  by (simp only: validate_input_ok_iff) simp

theorem target_accepted_iff_supported_witness:
  "strip ''hello'' \<noteq> [] \<and> length (strip ''hello'') \<le> 5000 \<and>
   validate_input ''hello'' ''fr'' = (True, None) \<and>
   validate_input ''hello'' '' es '' = (True, None) \<and>
   validate_input ''hello'' ''xx'' \<noteq> (True, None)"
proof -
  have h1: "strip ''hello'' \<noteq> []" and h2: "length (strip ''hello'') \<le> 5000"
    by (simp_all add: strip_hello)
  have fr: "strip (lower ''fr'') \<in> set (map fst SUPPORTED_LANGUAGES)" by code_simp
  have xx: "strip (lower ''xx'') \<notin> set (map fst SUPPORTED_LANGUAGES)" by code_simp
  show ?thesis
    using h1 h2 fr xx target_accepted_iff_supported [OF h1 h2, of "''fr''"]
      target_accepted_iff_supported [OF h1 h2, of "''xx''"]
    by simp
qed

text \<open>
  C4 as stated fails: \<open>validate_input\<close> accepts \<open>auto\<close> as a target, and a mock client
  goes on to translate into it.
\<close>

theorem auto_target_counterexample:
  "validate_input ''hello'' ''auto'' = (True, None) \<and>
   fst (translate (init 3 True) (fresh_world (steady_network 1 NotJSON)) ''hello'' ''auto'')
     = Inr [(''translatedText'',
              PStr (''[Auto-detect translation of '' @ [CHR 0x27] @ ''hello'' @ [CHR 0x27] @ '']'')),
            (''detectedLanguage'',
              PDict [(''language'', PStr ''en''), (''confidence'', PFloat (95/100))]),
            (''timestamp'', PIsoTime 1000),
            (''is_mock'', PBool True),
            (''attempts'', PInt 1)]"
proof -
  have v: "validate_input ''hello'' ''auto'' = (True, None)" by code_simp
  have m: "fetch_mock_translation (fresh_world (steady_network 1 NotJSON)) ''hello'' ''auto''
     = [(''translatedText'',
              PStr (''[Auto-detect translation of '' @ [CHR 0x27] @ ''hello'' @ [CHR 0x27] @ '']'')),
            (''detectedLanguage'',
              PDict [(''language'', PStr ''en''), (''confidence'', PFloat (95/100))]),
            (''timestamp'', PIsoTime 1000),
            (''is_mock'', PBool True)]"
    by code_simp
  show ?thesis
    by (simp add: v translate_def init_def upt_3 m)
qed

text \<open>
  C5, as the code has it. For every request whose text is blank, or whose text without
  its leading and trailing white space is longer than 5000 characters, \<open>translate\<close>
  raises the validation failure with no attempt made and no wait: the validation runs
  once, before the loop, and its failure leaves \<open>translate\<close> there.
\<close>

theorem blank_or_long_text_rejected:
  assumes "strip text = [] \<or> 5000 < length (strip text)"
  shows "translate c w text tgt
           = (Inl (ValueError (InputRejected
                (Some (if strip text = [] then TextEmpty else TextTooLong)))), c, w)
         \<and> classified (ValueError (InputRejected
                (Some (if strip text = [] then TextEmpty else TextTooLong)))) = Some Validation
         \<and> schedule (snd (snd (translate c w text tgt))) = schedule w
         \<and> post_times (snd (snd (translate c w text tgt))) = post_times w"
  using assms by (auto simp: translate_def validate_input_def strip_Nil)

theorem blank_or_long_text_rejected_witness:
  "(strip ''   '' = [] \<or> 5000 < length (strip ''   '')) \<and>
   translate (init 3 False) (fresh_world (steady_network 1 NotJSON)) ''   '' ''es''
     = (Inl (ValueError (InputRejected (Some TextEmpty))), init 3 False,
        fresh_world (steady_network 1 NotJSON))"
proof -
  have h: "strip ''   '' = [] \<or> 5000 < length (strip ''   '')" by (simp add: strip_blank)
  show ?thesis
    using h blank_or_long_text_rejected
              [OF h, of "init 3 False" "fresh_world (steady_network 1 NotJSON)" "''es''"]
    by (simp add: strip_blank)
qed

text \<open>
  C5 as stated fails: \<open>padded_text\<close> is longer than 5000 characters and passes the
  validation, since the length that is checked is that of the trimmed text. The live
  client posts it and the mock client translates it.
\<close>

theorem long_padded_text_counterexample:
  "5000 < length padded_text \<and> validate_input padded_text ''es'' = (True, None) \<and>
   post_times (snd (snd (translate (init 3 False) (fresh_world (steady_network 1 NotJSON))
                           padded_text ''es''))) = [1000] \<and>
   \<not> isl (fst (translate (init 3 True) (fresh_world (steady_network 1 NotJSON))
                           padded_text ''es''))"
proof -
  have l: "5000 < length padded_text" by (simp add: padded_text_def)
  have live: "post_times (snd (snd (translate (init 3 False) (fresh_world (steady_network 1 NotJSON))
                           padded_text ''es''))) = [1000]"
    by (simp add: translate_def valid_padded_es init_def upt_3 fetch_real_translation_def
          rate_limit_def fresh_world_def steady_network_def post_times_def Let_def)
  have mock: "\<not> isl (fst (translate (init 3 True) (fresh_world (steady_network 1 NotJSON))
                           padded_text ''es''))"
    by (simp add: translate_def valid_padded_es init_def upt_3)
  show ?thesis using l valid_padded_es live mock by simp
qed

text \<open>
  The mock path on a client with at least one attempt to make: \<open>hello world\<close> to
  \<open>es\<close> is \<open>Hola mundo\<close>, marked as mock data, on attempt 1; a valid request outside
  the mock table whose target is found in \<open>SUPPORTED_LANGUAGES\<close> gets the placeholder
  with the display name found and the original text; every valid request gets a result,
  with the client and the world left as they were.
\<close>

lemma mock_path_results:
  assumes "use_mock c" and "1 \<le> max_retries c"
  shows "translate c w ''hello world'' ''es''
           = (Inr [(''translatedText'', PStr ''Hola mundo''),
                   (''detectedLanguage'',
                     PDict [(''language'', PStr ''en''), (''confidence'', PFloat (95/100))]),
                   (''timestamp'', PIsoTime (clock w)),
                   (''is_mock'', PBool True),
                   (''attempts'', PInt 1)], c, w)
       \<and> (validate_input text tgt = (True, None)
            \<and> map_of mock_translations (lower text, lower tgt) = None
            \<and> map_of SUPPORTED_LANGUAGES (lower tgt) = Some name
          \<longrightarrow> translate c w text tgt
                = (Inr [(''translatedText'',
                          PStr (''['' @ name @ '' translation of '' @ [CHR 0x27] @ text @ [CHR 0x27] @ '']'')),
                        (''detectedLanguage'',
                          PDict [(''language'', PStr ''en''), (''confidence'', PFloat (95/100))]),
                        (''timestamp'', PIsoTime (clock w)),
                        (''is_mock'', PBool True),
                        (''attempts'', PInt 1)], c, w))
       \<and> (validate_input text tgt = (True, None)
          \<longrightarrow> \<not> isl (fst (translate c w text tgt)) \<and> snd (translate c w text tgt) = (c, w))"
  using assms
  by (simp add: translate_mock_valid valid_hello_world_es mock_hello_world_es)
     (simp add: fetch_mock_translation_def)

lemma mock_path_results_example:
  "use_mock (init 3 True) \<and> 1 \<le> max_retries (init 3 True) \<and>
   validate_input ''good night'' ''FR'' = (True, None) \<and>
   map_of mock_translations (lower ''good night'', lower ''FR'') = None \<and>
   map_of SUPPORTED_LANGUAGES (lower ''FR'') = Some ''French'' \<and>
   fst (translate (init 3 True) (fresh_world (steady_network 1 NotJSON)) ''hello world'' ''es'')
     = Inr [(''translatedText'', PStr ''Hola mundo''),
            (''detectedLanguage'',
              PDict [(''language'', PStr ''en''), (''confidence'', PFloat (95/100))]),
            (''timestamp'', PIsoTime 1000),
            (''is_mock'', PBool True),
            (''attempts'', PInt 1)] \<and>
   fst (translate (init 3 True) (fresh_world (steady_network 1 NotJSON)) ''good night'' ''FR'')
     = Inr [(''translatedText'',
              PStr (''[French translation of '' @ [CHR 0x27] @ ''good night'' @ [CHR 0x27] @ '']'')),
            (''detectedLanguage'',
              PDict [(''language'', PStr ''en''), (''confidence'', PFloat (95/100))]),
            (''timestamp'', PIsoTime 1000),
            (''is_mock'', PBool True),
            (''attempts'', PInt 1)]"
proof -
  have h1: "use_mock (init 3 True)" and h2: "1 \<le> max_retries (init 3 True)"
    by (simp_all add: init_def)
  have ck: "clock (fresh_world (steady_network 1 NotJSON)) = 1000"
    by (simp add: fresh_world_def)
  show ?thesis
    using h1 h2 valid_good_night_FR mock_miss_good_night_fr name_FR
      mock_path_results [OF h1 h2, of "fresh_world (steady_network 1 NotJSON)"
         "''good night''" "''FR''" "''French''"]
    by (simp add: ck)
qed

text \<open>
  C7 says that a request outside the mock table gets a placeholder with the display
  name of the target language and the original text. The code breaks this for a target
  with white space around it: \<open>validate_input\<close> trims the target and accepts \<open>es\<close>
  between spaces as Spanish, \<open>_fetch_mock_translation\<close> looks the same target up
  untrimmed, finds no key and writes \<open>Unknown\<close> in place of the name. The same request
  with the target trimmed gets \<open>Spanish\<close>.
\<close>

theorem padded_target_unknown_name:
  "validate_input ''good night'' '' es '' = (True, None) \<and>
   map_of SUPPORTED_LANGUAGES (strip (lower '' es '')) = Some ''Spanish'' \<and>
   fst (translate (init 3 True) (fresh_world (steady_network 1 NotJSON)) ''good night'' '' es '')
     = Inr [(''translatedText'',
              PStr (''[Unknown translation of '' @ [CHR 0x27] @ ''good night'' @ [CHR 0x27] @ '']'')),
            (''detectedLanguage'',
              PDict [(''language'', PStr ''en''), (''confidence'', PFloat (95/100))]),
            (''timestamp'', PIsoTime 1000),
            (''is_mock'', PBool True),
            (''attempts'', PInt 1)] \<and>
   fst (translate (init 3 True) (fresh_world (steady_network 1 NotJSON)) ''good night'' ''es'')
     = Inr [(''translatedText'',
              PStr (''[Spanish translation of '' @ [CHR 0x27] @ ''good night'' @ [CHR 0x27] @ '']'')),
            (''detectedLanguage'',
              PDict [(''language'', PStr ''en''), (''confidence'', PFloat (95/100))]),
            (''timestamp'', PIsoTime 1000),
            (''is_mock'', PBool True),
            (''attempts'', PInt 1)]"
proof -
  have v: "validate_input ''good night'' '' es '' = (True, None)" by code_simp
  have v': "validate_input ''good night'' ''es'' = (True, None)" by code_simp
  have n: "map_of SUPPORTED_LANGUAGES (strip (lower '' es '')) = Some ''Spanish''" by code_simp
  have m: "fetch_mock_translation (fresh_world (steady_network 1 NotJSON)) ''good night'' '' es ''
     = [(''translatedText'',
              PStr (''[Unknown translation of '' @ [CHR 0x27] @ ''good night'' @ [CHR 0x27] @ '']'')),
            (''detectedLanguage'',
              PDict [(''language'', PStr ''en''), (''confidence'', PFloat (95/100))]),
            (''timestamp'', PIsoTime 1000),
            (''is_mock'', PBool True)]"
    by code_simp
  have m': "fetch_mock_translation (fresh_world (steady_network 1 NotJSON)) ''good night'' ''es''
     = [(''translatedText'',
              PStr (''[Spanish translation of '' @ [CHR 0x27] @ ''good night'' @ [CHR 0x27] @ '']'')),
            (''detectedLanguage'',
              PDict [(''language'', PStr ''en''), (''confidence'', PFloat (95/100))]),
            (''timestamp'', PIsoTime 1000),
            (''is_mock'', PBool True)]"
    by code_simp
  show ?thesis
    by (simp add: v v' n translate_def init_def upt_3 m m')
qed

text \<open>
  C2. With the exponential strategy, a base delay of 1, three attempts allowed and a
  transport that times out on every post, \<open>translate\<close> on a valid request makes exactly
  three attempts, waits 1 after the first and 2 after the second, and ends with the
  \<open>TimeoutError\<close> of the third attempt, raised again by the bare \<open>raise\<close> of the
  handler, not with an error of its own for the exhaustion.
\<close>

theorem exponential_timeouts_three_attempts:
  assumes valid: "validate_input s tgt = (True, None)"
    and live: "\<not> use_mock c"
    and n: "max_retries c = 3"
    and strat: "RETRY_STRATEGY c = EXPONENTIAL"
    and base: "RETRY_DELAY c = 1"
    and net: "\<forall>n. \<exists>e. snd (network w n) = Raises e \<and> isinstance_Timeout e"
  shows "fst (translate c w s tgt) = Inl TimeoutError
         \<and> schedule (snd (snd (translate c w s tgt)))
             = schedule w @ [Attempt, Wait 1, Attempt, Wait 2, Attempt]"
proof -
  have d0: "calculate_retry_delay c 0 = 1" and d1: "calculate_retry_delay c 1 = 2"
    using strat base by (simp_all add: calculate_retry_delay_def)
  \<comment> \<open>first attempt\<close>
  obtain r1 c1 w1 where a1: "fetch_real_translation c w s tgt = (r1, c1, w1)"
    by (metis prod_cases3)
  have r1: "r1 = Inl TimeoutError" using fetch_real_timeout [OF net, of c s tgt] a1 by simp
  note f1 = fetch_real_facts [OF a1] and g1 = fetch_real_config [OF a1]
  let ?w1 = "w1\<lparr> clock := clock w1 + 1, events := events w1 @ [BackoffSleep 1] \<rparr>"
  have net1: "\<forall>n. \<exists>e. snd (network ?w1 n) = Raises e \<and> isinstance_Timeout e"
    using net f1(2) by simp
  have s1: "schedule ?w1 = schedule w @ [Attempt, Wait 1]"
    using f1(4) by (simp add: schedule_backoff)
  \<comment> \<open>second attempt\<close>
  obtain r2 c2 w2 where a2: "fetch_real_translation c1 ?w1 s tgt = (r2, c2, w2)"
    by (metis prod_cases3)
  have r2: "r2 = Inl TimeoutError" using fetch_real_timeout [OF net1, of c1 s tgt] a2 by simp
  note f2 = fetch_real_facts [OF a2] and g2 = fetch_real_config [OF a2]
  let ?w2 = "w2\<lparr> clock := clock w2 + 2, events := events w2 @ [BackoffSleep 2] \<rparr>"
  have net2: "\<forall>n. \<exists>e. snd (network ?w2 n) = Raises e \<and> isinstance_Timeout e"
    using net1 f2(2) by simp
  have s2: "schedule ?w2 = schedule w @ [Attempt, Wait 1, Attempt, Wait 2]"
    using f2(4) s1 by (simp add: schedule_backoff)
  \<comment> \<open>third attempt\<close>
  obtain r3 c3 w3 where a3: "fetch_real_translation c2 ?w2 s tgt = (r3, c3, w3)"
    by (metis prod_cases3)
  have r3: "r3 = Inl TimeoutError" using fetch_real_timeout [OF net2, of c2 s tgt] a3 by simp
  note f3 = fetch_real_facts [OF a3]
  have s3: "schedule w3 = schedule w @ [Attempt, Wait 1, Attempt, Wait 2, Attempt]"
    using f3(4) s2 by simp
  have "translate c w s tgt = translate_attempts c w s tgt [0, 1, 2] None"
    using valid n by (simp add: translate_def upt_3)
  also have "\<dots> = translate_attempts c1 ?w1 s tgt [1, 2] (Some TimeoutError)"
    using translate_attempts_retry [OF live a1 [unfolded r1], of 0 "[1, 2]" None] n d0
    by simp
  also have "\<dots> = translate_attempts c2 ?w2 s tgt [2] (Some TimeoutError)"
    using translate_attempts_retry [OF _ a2 [unfolded r2], of 1 "[2]" "Some TimeoutError"]
      live g1 n d1 by simp
  also have "\<dots> = (Inl TimeoutError, c3, w3)"
    using translate_attempts_last [OF _ a3 [unfolded r3], of 2 "[]" "Some TimeoutError"]
      live g1 g2 n by simp
  finally show ?thesis using s3 by simp
qed

theorem exponential_timeouts_three_attempts_witness:
  "validate_input ''hello'' ''es'' = (True, None) \<and> \<not> use_mock (init 3 False) \<and>
   max_retries (init 3 False) = 3 \<and> RETRY_STRATEGY (init 3 False) = EXPONENTIAL \<and>
   RETRY_DELAY (init 3 False) = 1 \<and>
   fst (translate (init 3 False) (fresh_world (steady_network 15 (Raises ReadTimeout)))
          ''hello'' ''es'') = Inl TimeoutError \<and>
   schedule (snd (snd (translate (init 3 False)
          (fresh_world (steady_network 15 (Raises ReadTimeout))) ''hello'' ''es'')))
     = [Attempt, Wait 1, Attempt, Wait 2, Attempt]"
proof -
  have h2: "\<not> use_mock (init 3 False)" and h3: "max_retries (init 3 False) = 3"
    and h4: "RETRY_STRATEGY (init 3 False) = EXPONENTIAL" and h5: "RETRY_DELAY (init 3 False) = 1"
    by (simp_all add: init_def)
  have h6: "\<forall>n. \<exists>e. snd (network (fresh_world (steady_network 15 (Raises ReadTimeout))) n) = Raises e
              \<and> isinstance_Timeout e"
    by (simp add: fresh_world_def steady_network_def)
  have s0: "schedule (fresh_world (steady_network 15 (Raises ReadTimeout))) = []"
    by (simp add: schedule_def fresh_world_def)
  show ?thesis
    using h2 h3 h4 h5 valid_hello_es
      exponential_timeouts_three_attempts [OF valid_hello_es h2 h3 h4 h5 h6]
    by (simp add: s0)
qed

text \<open>
  C1, as the code has it. Take a live attempt that fails with \<open>e\<close> while attempts
  remain and the backoff delay is not negative. A further attempt is made exactly when
  \<open>e\<close> is in the retryable set of the design and is not the \<open>RequestException\<close> that
  \<open>_fetch_real_translation\<close> raises for the transport's other exceptions: that one is a
  \<open>ProtocolError\<close> of the design, and the second \<open>except\<close> clause of \<open>translate\<close>
  raises it again at once. A \<open>MalformedResponse\<close> or an \<open>UnsupportedLanguage\<close> ends
  \<open>translate\<close> with that failure, and the \<open>ProtocolError\<close> of an error field is
  always tried again.
\<close>

theorem retried_iff_caught:
  assumes live: "\<not> use_mock c"
    and fr: "fetch_real_translation c w s tgt = (Inl e, c1, w1)"
    and more: "int a < max_retries c - 1" and rest: "rest \<noteq> []"
    and delay: "0 \<le> calculate_retry_delay c a"
  shows "(length (post_times w1)
            < length (post_times (snd (snd (translate_attempts c w s tgt (a # rest) le)))))
           = ((\<exists>f. classified e = Some f \<and> retryable f) \<and> e \<noteq> RequestException)
       \<and> (classified e = Some MalformedResponse \<or> classified e = Some UnsupportedLanguage
            \<or> e = RequestException
          \<longrightarrow> translate_attempts c w s tgt (a # rest) le = (Inl e, c1, w1))
       \<and> (classified e = Some ProtocolError \<and> e \<noteq> RequestException
          \<longrightarrow> length (post_times w1)
                < length (post_times (snd (snd (translate_attempts c w s tgt (a # rest) le)))))"
proof (cases "caught_for_retry e")
  case True
  let ?w2 = "w1\<lparr> clock := clock w1 + calculate_retry_delay c a,
                  events := events w1 @ [BackoffSleep (calculate_retry_delay c a)] \<rparr>"
  have "translate_attempts c w s tgt (a # rest) le
          = translate_attempts c1 ?w2 s tgt rest (Some e)"
    by (rule translate_attempts_retry [OF live fr True more delay])
  moreover have "\<not> use_mock c1" using live fetch_real_config(2) [OF fr] by simp
  then have "length (post_times ?w2)
        < length (post_times (snd (snd (translate_attempts c1 ?w2 s tgt rest (Some e)))))"
    using rest by (rule translate_attempts_live_posts)
  ultimately have "length (post_times w1)
        < length (post_times (snd (snd (translate_attempts c w s tgt (a # rest) le))))"
    by (simp add: post_times_backoff)
  moreover from True have "(\<exists>f. classified e = Some f \<and> retryable f) \<and> e \<noteq> RequestException"
    by (simp add: caught_for_retry_iff)
  moreover from True have "\<not> (classified e = Some MalformedResponse
      \<or> classified e = Some UnsupportedLanguage \<or> e = RequestException)"
    by (auto simp: caught_for_retry_iff)
  ultimately show ?thesis by simp
next
  case False
  have eq: "translate_attempts c w s tgt (a # rest) le = (Inl e, c1, w1)"
    by (rule translate_attempts_not_caught [OF live fr False])
  from False have "\<not> ((\<exists>f. classified e = Some f \<and> retryable f) \<and> e \<noteq> RequestException)"
    by (simp add: caught_for_retry_iff)
  with eq show ?thesis by auto
qed

theorem retried_iff_caught_witness:
  "\<not> use_mock (init 3 False) \<and>
   fetch_real_translation (init 3 False) busy_world ''hello'' ''es''
     = (Inl (ConnectionError (ApiError ''Server busy'')),
        (init 3 False)\<lparr> last_request_time := 1000 \<rparr>,
        busy_world\<lparr> clock := 1001, events := [Posted 1000 ''hello'' ''es''] \<rparr>) \<and>
   int 0 < max_retries (init 3 False) - 1 \<and> [1, 2::nat] \<noteq> [] \<and>
   0 \<le> calculate_retry_delay (init 3 False) 0 \<and>
   classified (ConnectionError (ApiError ''Server busy'')) = Some ProtocolError \<and>
   length (post_times (busy_world\<lparr> clock := 1001, events := [Posted 1000 ''hello'' ''es''] \<rparr>))
     < length (post_times (snd (snd (translate_attempts (init 3 False) busy_world
                                        ''hello'' ''es'' [0, 1, 2] None))))"
proof -
  have h1: "\<not> use_mock (init 3 False)" by (simp add: init_def)
  have h3: "int 0 < max_retries (init 3 False) - 1" by (simp add: init_def)
  have h4: "[1, 2::nat] \<noteq> []" by simp
  have h5: "0 \<le> calculate_retry_delay (init 3 False) 0"
    by (simp add: init_def calculate_retry_delay_def)
  show ?thesis
    using h1 h3 h4 h5 fetch_real_busy retried_iff_caught [OF h1 fetch_real_busy h3 h4 h5, of None]
    by simp
qed

text \<open>
  C1 as stated fails: with three attempts allowed and a transport whose every post ends
  in an HTTP error status, the failure is a \<open>ProtocolError\<close>, which the design counts as
  retryable, and \<open>translate\<close> stops after the first post.
\<close>

theorem transport_error_not_retried_counterexample:
  "max_retries (init 3 False) = 3 \<and>
   validate_input ''hello'' ''es'' = (True, None) \<and>
   fst (translate (init 3 False) failing_world ''hello'' ''es'') = Inl RequestException \<and>
   classified RequestException = Some ProtocolError \<and> retryable ProtocolError \<and>
   post_times (snd (snd (translate (init 3 False) failing_world ''hello'' ''es''))) = [1000]"
  by (simp add: translate_def valid_hello_es init_def upt_3 fetch_real_translation_def
        rate_limit_def failing_world_def fresh_world_def steady_network_def post_times_def Let_def)

text \<open>
  C8. Time is the clock of the world: \<open>time.time()\<close> reads it, \<open>time.sleep(d)\<close>
  moves it on by \<open>d\<close>, a post by the time the network takes. The rate limiter, which
  runs before every live call, ends with \<open>last_request_time\<close> set to the clock reading
  after its wait, at least \<open>REQUEST_TIMEOUT\<close> after the earlier value; the post is
  issued at that reading whatever its outcome. So the posts of one client are spaced by
  \<open>REQUEST_TIMEOUT\<close>: the spacing holds before the first post, every call of
  \<open>translate\<close> keeps it, and with it any two posts are at least \<open>REQUEST_TIMEOUT\<close>
  apart. A mock client never runs the rate limiter: \<open>translate\<close> leaves its
  \<open>last_request_time\<close>, the clock and the trace as they were.
\<close>

theorem rate_limiter_spacing:
  "(rate_limit c w = Inr (c1, w1)
      \<longrightarrow> last_request_time c1 = clock w1 \<and> clock w \<le> clock w1
          \<and> last_request_time c + REQUEST_TIMEOUT c \<le> clock w1)
   \<and> (fetch_real_translation c w s tgt = (r, c2, w2)
      \<longrightarrow> post_times w2 = post_times w @ [last_request_time c2]
          \<and> last_request_time c + REQUEST_TIMEOUT c \<le> last_request_time c2)
   \<and> (post_times w = [] \<longrightarrow> rate_inv c w)
   \<and> (rate_inv c w \<and> translate c w s tgt = (r', c', w') \<longrightarrow> rate_inv c' w')
   \<and> (rate_inv c w \<and> 0 \<le> REQUEST_TIMEOUT c \<and> i < j \<and> j < length (post_times w)
      \<longrightarrow> post_times w ! i + REQUEST_TIMEOUT c \<le> post_times w ! j)
   \<and> (use_mock c \<longrightarrow> snd (translate c w s tgt) = (c, w))"
proof -
  have a: "rate_limit c w = Inr (c1, w1)
      \<longrightarrow> last_request_time c1 = clock w1 \<and> clock w \<le> clock w1
          \<and> last_request_time c + REQUEST_TIMEOUT c \<le> clock w1"
    by (auto simp: rate_limit_eq split: if_splits)
  have b: "fetch_real_translation c w s tgt = (r, c2, w2)
      \<longrightarrow> post_times w2 = post_times w @ [last_request_time c2]
          \<and> last_request_time c + REQUEST_TIMEOUT c \<le> last_request_time c2"
  proof
    assume fr: "fetch_real_translation c w s tgt = (r, c2, w2)"
    from fetch_real_facts(1) [OF fr]
    have "last_request_time c + REQUEST_TIMEOUT c \<le> last_request_time c2" by simp
    with fetch_real_facts(3) [OF fr] show "post_times w2 = post_times w @ [last_request_time c2]
          \<and> last_request_time c + REQUEST_TIMEOUT c \<le> last_request_time c2" by simp
  qed
  have c: "post_times w = [] \<longrightarrow> rate_inv c w" by (simp add: rate_inv_def)
  have d: "rate_inv c w \<and> translate c w s tgt = (r', c', w') \<longrightarrow> rate_inv c' w'"
    using translate_rate_inv by blast
  have e: "rate_inv c w \<and> 0 \<le> REQUEST_TIMEOUT c \<and> i < j \<and> j < length (post_times w)
      \<longrightarrow> post_times w ! i + REQUEST_TIMEOUT c \<le> post_times w ! j"
    using spaced_nth [of "REQUEST_TIMEOUT c" "post_times w" i j] by (simp add: rate_inv_def)
  have f: "use_mock c \<longrightarrow> snd (translate c w s tgt) = (c, w)"
    using translate_mock_frame by blast
  from a b c d e f show ?thesis by blast
qed


theorem rate_limiter_spacing_witness:
  "rate_limit recent_client busy_world
     = Inr (recent_client\<lparr> last_request_time := 4001/4 \<rparr>,
            busy_world\<lparr> clock := 4001/4, events := [RateLimitSleep (1/4)] \<rparr>) \<and>
   fetch_real_translation recent_client busy_world ''hello'' ''es''
     = (Inl (ConnectionError (ApiError ''Server busy'')),
        recent_client\<lparr> last_request_time := 4001/4 \<rparr>,
        busy_world\<lparr> clock := 4005/4,
                     events := [RateLimitSleep (1/4), Posted (4001/4) ''hello'' ''es''] \<rparr>) \<and>
   post_times busy_world = [] \<and>
   rate_inv recent_client busy_world \<and>
   rate_inv (fst (snd (translate recent_client busy_world ''hello'' ''es'')))
            (snd (snd (translate recent_client busy_world ''hello'' ''es''))) \<and>
   rate_inv ((init 3 False)\<lparr> last_request_time := 1002 \<rparr>) two_posts_world \<and>
   0 \<le> REQUEST_TIMEOUT ((init 3 False)\<lparr> last_request_time := 1002 \<rparr>) \<and>
   (0::nat) < 1 \<and> 1 < length (post_times two_posts_world) \<and>
   post_times two_posts_world ! 0 + REQUEST_TIMEOUT ((init 3 False)\<lparr> last_request_time := 1002 \<rparr>)
     \<le> post_times two_posts_world ! 1 \<and>
   use_mock (init 3 True) \<and>
   snd (translate (init 3 True) busy_world ''hello'' ''es'') = (init 3 True, busy_world)"
proof -
  have p0: "post_times busy_world = []"
    by (simp add: post_times_def busy_world_def fresh_world_def)
  have tr: "translate recent_client busy_world ''hello'' ''es''
      = (fst (translate recent_client busy_world ''hello'' ''es''),
         fst (snd (translate recent_client busy_world ''hello'' ''es'')),
         snd (snd (translate recent_client busy_world ''hello'' ''es'')))"
    by simp
  have rt: "0 \<le> REQUEST_TIMEOUT ((init 3 False)\<lparr> last_request_time := 1002 \<rparr>)"
    by (simp add: init_def)
  have len: "1 < length (post_times two_posts_world)"
    by (simp add: post_times_def two_posts_world_def)
  have m: "use_mock (init 3 True)" by (simp add: init_def)
  note t1 = rate_limiter_spacing [of recent_client busy_world
      "recent_client\<lparr> last_request_time := 4001/4 \<rparr>"
      "busy_world\<lparr> clock := 4001/4, events := [RateLimitSleep (1/4)] \<rparr>"
      "''hello''" "''es''" "Inl (ConnectionError (ApiError ''Server busy''))"
      "recent_client\<lparr> last_request_time := 4001/4 \<rparr>"
      "busy_world\<lparr> clock := 4005/4,
                     events := [RateLimitSleep (1/4), Posted (4001/4) ''hello'' ''es''] \<rparr>"
      "fst (translate recent_client busy_world ''hello'' ''es'')"
      "fst (snd (translate recent_client busy_world ''hello'' ''es''))"
      "snd (snd (translate recent_client busy_world ''hello'' ''es''))" 0 1]
  note t2 = rate_limiter_spacing [of "(init 3 False)\<lparr> last_request_time := 1002 \<rparr>"
      two_posts_world _ _ "''hello''" "''es''" _ _ _ _ _ _ 0 1]
  note t3 = rate_limiter_spacing [of "init 3 True" busy_world _ _ "''hello''" "''es''"]
  have inv0: "rate_inv recent_client busy_world" using t1 p0 by blast
  have inv1: "rate_inv (fst (snd (translate recent_client busy_world ''hello'' ''es'')))
            (snd (snd (translate recent_client busy_world ''hello'' ''es'')))"
    using t1 inv0 tr by blast
  have sp: "post_times two_posts_world ! 0
       + REQUEST_TIMEOUT ((init 3 False)\<lparr> last_request_time := 1002 \<rparr>)
     \<le> post_times two_posts_world ! 1"
    using t2 rate_inv_two_posts rt len by simp
  have fr: "snd (translate (init 3 True) busy_world ''hello'' ''es'') = (init 3 True, busy_world)"
    using t3 m by blast
  show ?thesis
    using rate_limit_recent fetch_real_recent p0 inv0 inv1 rate_inv_two_posts rt len sp m fr
    by simp
qed

text \<open>
  C3 says that a payload with an explicit error field yields \<open>RateLimited\<close>,
  \<open>UnsupportedLanguage\<close> or \<open>ProtocolError\<close>. The code breaks this on a payload whose
  error field is not a string: \<open>error_msg.lower()\<close> raises \<open>AttributeError\<close>, which no
  \<open>except\<close> clause of \<open>translate\<close> catches. Here the error field is an object that
  mentions quota; \<open>translate\<close> ends after one post with an exception that has no class.
\<close>

theorem structured_error_field_unclassified:
  "fst (translate (init 3 False) structured_error_world ''hello'' ''es'') = Inl AttributeError \<and>
   classified AttributeError = None \<and>
   post_times (snd (snd (translate (init 3 False) structured_error_world ''hello'' ''es'')))
     = [1000]"
  by (simp add: translate_def valid_hello_es init_def upt_3 fetch_real_translation_def
        rate_limit_def structured_error_world_def fresh_world_def steady_network_def
        post_times_def Let_def check_response_def)

end
